theory Spec2Isabelle
  imports Complex_Main
begin

section \<open>The client of the generation service (App.vue and its second version)\<close>

text \<open>
  The repository holds two versions of one Vue component: \<^verbatim>\<open>src/font/video-ai-platform/src/App.vue\<close>
  and \<^verbatim>\<open>src/unnamed/part_000\<close>. Their scripts create a generation task over HTTP, poll it until
  it is terminal, and keep a task list for display. This theory embeds the script functions
  \<^verbatim>\<open>upsertTask\<close>, \<^verbatim>\<open>pollGenerateTask\<close>, \<^verbatim>\<open>handleCancel\<close> and \<^verbatim>\<open>handleGenerate\<close> of both files.

  Conventions of the embedding:
  \<^item> the refs of the component (\<^verbatim>\<open>loading\<close>, \<^verbatim>\<open>taskList\<close>, ...) are the fields of one record
    \<open>state\<close>, passed in and returned;
  \<^item> what a function does to the outside (HTTP requests, sleeps, messages, console output) is
    appended to the field \<open>effects\<close> of the state, in the order the code performs it;
  \<^item> what the outside answers (HTTP responses, clock readings) is read from a record \<open>env\<close>,
    which also holds the build setting \<^verbatim>\<open>API_BASE\<close>, the runtime's \<^verbatim>\<open>toUpperCase\<close> and the
    runtime's rounding of a number to one decimal;
  \<^item> an \<^verbatim>\<open>await\<close> that may reject and a \<^verbatim>\<open>throw\<close> are values of \<open>'a outcome\<close>;
  \<^item> a JavaScript number is a \<open>real\<close>. The comparisons, \<^verbatim>\<open>Math.max\<close> and \<^verbatim>\<open>Math.min\<close> are exact
    on doubles; the one place where the code computes with rounding, the measured duration
    \<^verbatim>\<open>Number(((performance.now() - startTime) / 1000).toFixed(1))\<close>, takes its rounding from
    \<open>env\<close>. A string is a
    \<open>string\<close> holding the UTF-8 bytes of the text, and a field that may be \<^verbatim>\<open>undefined\<close> or
    \<^verbatim>\<open>null\<close> is an \<open>option\<close>. Response fields carry the types of the HTTP contract
    (\<^verbatim>\<open>status\<close>, \<^verbatim>\<open>stage\<close>, \<^verbatim>\<open>detail\<close>, \<^verbatim>\<open>content\<close> strings; \<^verbatim>\<open>progress\<close>, \<^verbatim>\<open>processTime\<close>,
    \<^verbatim>\<open>code\<close> numbers), each of them optional; a body whose fields have other types is
    outside the model;
  \<^item> each handler is run from its call to its return on its own: what another handler does
    to the refs while this one waits in an \<^verbatim>\<open>await\<close> is not modelled.
\<close>

subsection \<open>JavaScript operators on optional values\<close>

type_synonym number = real

text \<open>\<^verbatim>\<open>a || b\<close> on an optional string: \<^verbatim>\<open>undefined\<close>, \<^verbatim>\<open>null\<close> and \<^verbatim>\<open>''\<close> are falsy.\<close>

definition js_or :: "string option \<Rightarrow> string \<Rightarrow> string" where
  "js_or a b = (case a of None \<Rightarrow> b | Some x \<Rightarrow> if x = [] then b else x)"

text \<open>\<^verbatim>\<open>a ?? b\<close>: only \<^verbatim>\<open>undefined\<close> and \<^verbatim>\<open>null\<close> give \<^verbatim>\<open>b\<close>.\<close>

definition js_nullish :: "'a option \<Rightarrow> 'a \<Rightarrow> 'a" where
  "js_nullish a b = (case a of None \<Rightarrow> b | Some x \<Rightarrow> x)"

text \<open>\<^verbatim>\<open>Number(x)\<close> of a number is that number.\<close>

definition Number :: "number \<Rightarrow> number" where
  "Number x = x"

text \<open>
  \<^verbatim>\<open>s.toUpperCase()\<close> is a method of the runtime, which maps letters outside ASCII as well. The
  functions below take it from the environment (the field \<open>toUpperCase\<close> of \<open>env\<close>), so
  what is proved of them holds for every such mapping. \<open>ascii_upper\<close> turns the letters a
  to z into A to Z and leaves every other byte; it is the mapping of the sample
  environments.
\<close>

definition upper_char :: "char \<Rightarrow> char" where
  "upper_char c =
     (case map_of (zip ''abcdefghijklmnopqrstuvwxyz'' ''ABCDEFGHIJKLMNOPQRSTUVWXYZ'') c of
        None \<Rightarrow> c
      | Some C \<Rightarrow> C)"

definition ascii_upper :: "string \<Rightarrow> string" where
  "ascii_upper s = map upper_char s"

text \<open>
  \<^verbatim>\<open>Number(x.toFixed(1))\<close> is computed by the runtime on doubles: the difference of the two
  clock readings and its quotient by 1000 are rounded to doubles, and \<^verbatim>\<open>toFixed(1)\<close> rounds
  the decimal expansion of that double (0.15 is the double 0.1499..., which it turns into
  0.1). Each of these roundings is determined by the exact value it rounds, so the result
  is a function of the exact quotient; the functions below take that function from the
  environment (the field \<open>toFixed1\<close> of \<open>env\<close>), and what is proved of them holds for every
  such function. \<open>round_tenth\<close> rounds the exact value to the nearest tenth, the larger one
  of two equally near, a negative value as its negation; it is the rounding of the sample
  environments and differs from the runtime's where the double lies on the other side of
  a tie.
\<close>

definition round_tenth :: "number \<Rightarrow> number" where
  "round_tenth x =
     (if x < 0 then - (of_int \<lfloor>(- x) * 10 + 1 / 2\<rfloor> / 10) else of_int \<lfloor>x * 10 + 1 / 2\<rfloor> / 10)"

subsection \<open>The texts of the component\<close>

text \<open>
  The literals of the script, as UTF-8 bytes. In the order of the definitions they are
  the default stage of a new list entry, the fallback status text, the stages of a
  finished, failed and canceled task, the fallback messages of a failed task and of a
  poll that timed out, the messages of \<^verbatim>\<open>handleCancel\<close>, and the texts of \<^verbatim>\<open>handleGenerate\<close>.
  The fallback message of a canceled task is the same text as its stage.
\<close>

definition stage_creating :: string where
  "stage_creating = [CHR 0xE4, CHR 0xBB, CHR 0xBB, CHR 0xE5, CHR 0x8A, CHR 0xA1, CHR 0xE5, CHR 0x88, CHR 0x9B, CHR 0xE5, CHR 0xBB, CHR 0xBA, CHR 0xE4, CHR 0xB8, CHR 0xAD]"

definition text_processing :: string where
  "text_processing = [CHR 0xE5, CHR 0xA4, CHR 0x84, CHR 0xE7, CHR 0x90, CHR 0x86, CHR 0xE4, CHR 0xB8, CHR 0xAD] @ ''...''"

definition stage_done :: string where
  "stage_done = [CHR 0xE5, CHR 0xA4, CHR 0x84, CHR 0xE7, CHR 0x90, CHR 0x86, CHR 0xE5, CHR 0xAE, CHR 0x8C, CHR 0xE6, CHR 0x88, CHR 0x90]"

definition stage_failed :: string where
  "stage_failed = [CHR 0xE5, CHR 0xA4, CHR 0x84, CHR 0xE7, CHR 0x90, CHR 0x86, CHR 0xE5, CHR 0xA4, CHR 0xB1, CHR 0xE8, CHR 0xB4, CHR 0xA5]"

definition stage_canceled :: string where
  "stage_canceled = [CHR 0xE4, CHR 0xBB, CHR 0xBB, CHR 0xE5, CHR 0x8A, CHR 0xA1, CHR 0xE5, CHR 0xB7, CHR 0xB2, CHR 0xE5, CHR 0x8F, CHR 0x96, CHR 0xE6, CHR 0xB6, CHR 0x88]"

definition msg_task_failed :: string where
  "msg_task_failed = [CHR 0xE4, CHR 0xBB, CHR 0xBB, CHR 0xE5, CHR 0x8A, CHR 0xA1, CHR 0xE6, CHR 0x89, CHR 0xA7, CHR 0xE8, CHR 0xA1, CHR 0x8C, CHR 0xE5, CHR 0xA4, CHR 0xB1, CHR 0xE8, CHR 0xB4, CHR 0xA5]"

definition msg_poll_timeout :: string where
  "msg_poll_timeout = [CHR 0xE4, CHR 0xBB, CHR 0xBB, CHR 0xE5, CHR 0x8A, CHR 0xA1, CHR 0xE8, CHR 0xBD, CHR 0xAE, CHR 0xE8, CHR 0xAF, CHR 0xA2, CHR 0xE8, CHR 0xB6, CHR 0x85, CHR 0xE6, CHR 0x97, CHR 0xB6, CHR 0xEF, CHR 0xBC, CHR 0x8C, CHR 0xE8, CHR 0xAF, CHR 0xB7, CHR 0xE7, CHR 0xA8, CHR 0x8D, CHR 0xE5, CHR 0x90, CHR 0x8E, CHR 0xE9, CHR 0x87, CHR 0x8D, CHR 0xE8, CHR 0xAF, CHR 0x95]"

definition msg_cancel_sent :: string where
  "msg_cancel_sent = [CHR 0xE5, CHR 0xB7, CHR 0xB2, CHR 0xE5, CHR 0x8F, CHR 0x91, CHR 0xE9, CHR 0x80, CHR 0x81, CHR 0xE5, CHR 0x8F, CHR 0x96, CHR 0xE6, CHR 0xB6, CHR 0x88, CHR 0xE8, CHR 0xAF, CHR 0xB7, CHR 0xE6, CHR 0xB1, CHR 0x82]"

definition msg_cancel_failed :: string where
  "msg_cancel_failed = [CHR 0xE5, CHR 0x8F, CHR 0x96, CHR 0xE6, CHR 0xB6, CHR 0x88, CHR 0xE5, CHR 0xA4, CHR 0xB1, CHR 0xE8, CHR 0xB4, CHR 0xA5]"

definition msg_need_url :: string where
  "msg_need_url = [CHR 0xE8, CHR 0xAF, CHR 0xB7, CHR 0xE5, CHR 0x85, CHR 0x88, CHR 0xE8, CHR 0xBE, CHR 0x93, CHR 0xE5, CHR 0x85, CHR 0xA5, CHR 0xE8, CHR 0xA7, CHR 0x86, CHR 0xE9, CHR 0xA2, CHR 0x91, CHR 0xE9, CHR 0x93, CHR 0xBE, CHR 0xE6, CHR 0x8E, CHR 0xA5]"

definition msg_need_prompt :: string where
  "msg_need_prompt = [CHR 0xE8, CHR 0xAF, CHR 0xB7, CHR 0xE5, CHR 0x85, CHR 0x88, CHR 0xE8, CHR 0xBE, CHR 0x93, CHR 0xE5, CHR 0x85, CHR 0xA5] @ '' prompt''"

definition text_creating :: string where
  "text_creating = [CHR 0xE4, CHR 0xBB, CHR 0xBB, CHR 0xE5, CHR 0x8A, CHR 0xA1, CHR 0xE5, CHR 0x88, CHR 0x9B, CHR 0xE5, CHR 0xBB, CHR 0xBA, CHR 0xE4, CHR 0xB8, CHR 0xAD] @ ''...''"

definition msg_no_taskId :: string where
  "msg_no_taskId = [CHR 0xE5, CHR 0x90, CHR 0x8E, CHR 0xE7, CHR 0xAB, CHR 0xAF, CHR 0xE6, CHR 0x9C, CHR 0xAA, CHR 0xE8, CHR 0xBF, CHR 0x94, CHR 0xE5, CHR 0x9B, CHR 0x9E] @ '' taskId''"

definition stage_created :: string where
  "stage_created = [CHR 0xE4, CHR 0xBB, CHR 0xBB, CHR 0xE5, CHR 0x8A, CHR 0xA1, CHR 0xE5, CHR 0x88, CHR 0x9B, CHR 0xE5, CHR 0xBB, CHR 0xBA, CHR 0xE6, CHR 0x88, CHR 0x90, CHR 0xE5, CHR 0x8A, CHR 0x9F]"

definition text_request_failed :: string where
  "text_request_failed = [CHR 0xE8, CHR 0xAF, CHR 0xB7, CHR 0xE6, CHR 0xB1, CHR 0x82, CHR 0xE5, CHR 0xA4, CHR 0xB1, CHR 0xE8, CHR 0xB4, CHR 0xA5]"

definition msg_request_error :: string where
  "msg_request_error = [CHR 0xE8, CHR 0xAF, CHR 0xB7, CHR 0xE6, CHR 0xB1, CHR 0x82, CHR 0xE5, CHR 0x87, CHR 0xBA, CHR 0xE9, CHR 0x94, CHR 0x99]"

subsection \<open>Data\<close>

text \<open>An entry of \<^verbatim>\<open>taskList\<close>, and the argument of \<^verbatim>\<open>upsertTask\<close> (a key that is left out is \<open>None\<close>).\<close>

record task =
  taskId :: string
  progress :: number
  stage :: string
  status :: string

record patch =
  patch_taskId :: string
  patch_progress :: "number option"
  patch_stage :: "string option"
  patch_status :: "string option"

text \<open>The reactive object \<^verbatim>\<open>projectData\<close>, and the request body built from it.\<close>

record options =
  enableOCR :: bool
  enhanceAudio :: bool

record projectData =
  url :: string
  prompt :: string
  title :: string
  type :: string
  engine :: string
  timeRange :: "number list"
  options :: options

record params = projectData +
  timestamp :: number

record payload =
  video_url :: string
  params :: params

text \<open>The body of \<^verbatim>\<open>GET /api/generate/{taskId}\<close> and of \<^verbatim>\<open>POST /api/generate\<close>.\<close>

record poll_data =
  data_status :: "string option"
  data_progress :: "number option"
  data_stage :: "string option"
  data_detail :: "string option"
  data_content :: "string option"
  data_processTime :: "number option"
  data_code :: "number option"

record create_data =
  data_taskId :: "string option"

text \<open>The object stored in \<^verbatim>\<open>generatedResult\<close>.\<close>

record generated =
  code :: number
  processTime :: number
  content :: string

text \<open>
  An error value: \<^verbatim>\<open>new Error(m)\<close> has a message and no response; an error of the HTTP
  library may carry the \<^verbatim>\<open>detail\<close> of the response body.
\<close>

datatype js_error = JsError (response_detail: "string option") (message: string)

definition Error :: "string \<Rightarrow> js_error" where
  "Error m = JsError None m"

datatype 'a outcome = Throws js_error | Returns 'a

datatype level = success | warning | error

datatype body = EmptyBody | Body payload

datatype event =
    AxiosGet string nat
  | AxiosPost string body nat
  | Sleep nat
  | ElMessage level string
  | ConsoleLog payload
  | ConsoleError js_error

record state =
  projectData :: projectData
  loading :: bool
  loadingPercent :: number
  loadingStatusText :: string
  generatedResult :: "generated option"
  taskList :: "task list"
  currentTaskId :: string
  effects :: "event list"

record env =
  API_BASE :: string
  toUpperCase :: "string \<Rightarrow> string"
  toFixed1 :: "number \<Rightarrow> number"
  now :: number
  perf_start :: number
  perf_end :: number
  createRes :: "create_data option outcome"
  pollRes :: "nat \<Rightarrow> poll_data option outcome"
  cancelRes :: "unit outcome"

subsection \<open>Effects\<close>

definition perform :: "event \<Rightarrow> state \<Rightarrow> state" where
  "perform e s = s\<lparr>effects := effects s @ [e]\<rparr>"

definition sleep :: "nat \<Rightarrow> state \<Rightarrow> state" where
  "sleep ms s = perform (Sleep ms) s"

definition axios_get :: "string \<Rightarrow> nat \<Rightarrow> 'a outcome \<Rightarrow> state \<Rightarrow> 'a outcome \<times> state" where
  "axios_get u timeout res s = (res, perform (AxiosGet u timeout) s)"

definition axios_post :: "string \<Rightarrow> body \<Rightarrow> nat \<Rightarrow> 'a outcome \<Rightarrow> state \<Rightarrow> 'a outcome \<times> state" where
  "axios_post u b timeout res s = (res, perform (AxiosPost u b timeout) s)"

text \<open>\<^verbatim>\<open>err?.response?.data?.detail || err?.message || fallback\<close>, the text both handlers show.\<close>

definition error_text :: "js_error \<Rightarrow> string \<Rightarrow> string" where
  "error_text err fallback = js_or (response_detail err) (js_or (Some (message err)) fallback)"

subsection \<open>upsertTask\<close>

text \<open>\<^verbatim>\<open>xs.findIndex(p)\<close>; \<open>None\<close> is the result \<^verbatim>\<open>-1\<close>.\<close>

fun findIndex :: "('a \<Rightarrow> bool) \<Rightarrow> 'a list \<Rightarrow> nat option" where
  "findIndex p [] = None"
| "findIndex p (x # xs) = (if p x then Some 0 else map_option Suc (findIndex p xs))"

text \<open>\<^verbatim>\<open>{ ...item, ...patch }\<close>: the keys of the patch replace those of the entry.\<close>

definition spread :: "task \<Rightarrow> patch \<Rightarrow> task" where
  "spread item p =
     \<lparr>taskId = patch_taskId p,
      progress = (case patch_progress p of None \<Rightarrow> progress item | Some v \<Rightarrow> v),
      stage = (case patch_stage p of None \<Rightarrow> stage item | Some v \<Rightarrow> v),
      status = (case patch_status p of None \<Rightarrow> status item | Some v \<Rightarrow> v)\<rparr>"

definition upsertTask :: "patch \<Rightarrow> state \<Rightarrow> state" where
  "upsertTask p s =
     (case findIndex (\<lambda>item. taskId item = patch_taskId p) (taskList s) of
        None \<Rightarrow>
          s\<lparr>taskList :=
              \<lparr>taskId = patch_taskId p,
               progress = js_nullish (patch_progress p) 0,
               stage = js_nullish (patch_stage p) stage_creating,
               status = js_nullish (patch_status p) ''PENDING''\<rparr> # taskList s\<rparr>
      | Some idx \<Rightarrow> s\<lparr>taskList := (taskList s)[idx := spread (taskList s ! idx) p]\<rparr>)"

subsection \<open>pollGenerateTask\<close>

definition maxPollTimes :: nat where
  "maxPollTimes = 600"

text \<open>
  The locals \<^verbatim>\<open>status\<close>, \<^verbatim>\<open>progress\<close> and \<^verbatim>\<open>stage\<close> of one iteration, read from the response body
  \<^verbatim>\<open>data\<close> with optional chaining (\<open>Option.bind\<close>).
\<close>

definition poll_status :: "env \<Rightarrow> poll_data option \<Rightarrow> string" where
  "poll_status env data = toUpperCase env (js_or (Option.bind data data_status) '''')"

definition poll_progress :: "poll_data option \<Rightarrow> number" where
  "poll_progress data = Number (js_nullish (Option.bind data data_progress) 0)"

definition poll_stage :: "poll_data option \<Rightarrow> string" where
  "poll_stage data = js_or (Option.bind data data_stage) ''''"

text \<open>
  The statements of one iteration between the request and the dispatch on the status:
  the list entry gets the progress as reported, the loading indicator the clamped one.
\<close>

definition record_poll :: "env \<Rightarrow> string \<Rightarrow> poll_data option \<Rightarrow> state \<Rightarrow> state" where
  "record_poll env tid data s =
     (let status = poll_status env data;
          progress = poll_progress data;
          stage = poll_stage data;
          s1 = upsertTask \<lparr>patch_taskId = tid, patch_progress = Some progress,
                 patch_stage = Some stage, patch_status = Some status\<rparr> s;
          s2 = s1\<lparr>loadingPercent := max 0 (min 100 progress)\<rparr>
      in s2\<lparr>loadingStatusText := js_or (Some stage) text_processing\<rparr>)"

text \<open>
  The loop of \<^verbatim>\<open>pollGenerateTask\<close> from iteration \<open>i\<close> on. The \<open>i\<close>-th request is answered by
  \<open>pollRes env i\<close>; a rejected request leaves the function as the exception it is.
\<close>

function poll_loop :: "env \<Rightarrow> string \<Rightarrow> nat \<Rightarrow> state \<Rightarrow> poll_data option outcome \<times> state" where
  "poll_loop env tid i s =
     (if i < maxPollTimes then
        (case axios_get (API_BASE env @ ''/api/generate/'' @ tid) 15000 (pollRes env i) s of
           (Throws err, s1) \<Rightarrow> (Throws err, s1)
         | (Returns data, s1) \<Rightarrow>
             (let status = poll_status env data;
                  s2 = record_poll env tid data s1
              in if status = ''PENDING'' then poll_loop env tid (Suc i) (sleep 2000 s2)
                 else if status = ''RUNNING'' then poll_loop env tid (Suc i) (sleep 2000 s2)
                 else if status = ''SUCCESS'' then
                   (Returns data,
                    upsertTask \<lparr>patch_taskId = tid, patch_progress = Some 100,
                      patch_stage = Some stage_done, patch_status = Some status\<rparr>
                      (s2\<lparr>loadingPercent := 100, loadingStatusText := stage_done\<rparr>))
                 else if status = ''FAILED'' then
                   (Throws (Error (js_or (Option.bind data data_detail) msg_task_failed)),
                    upsertTask \<lparr>patch_taskId = tid, patch_progress = Some 100,
                      patch_stage = Some stage_failed, patch_status = Some status\<rparr> s2)
                 else if status = ''CANCELED'' then
                   (Throws (Error (js_or (Option.bind data data_detail) stage_canceled)),
                    upsertTask \<lparr>patch_taskId = tid, patch_progress = Some 100,
                      patch_stage = Some stage_canceled, patch_status = Some status\<rparr> s2)
                 else poll_loop env tid (Suc i) (sleep 2000 s2)))
      else (Throws (Error msg_poll_timeout), s))"
  by pat_completeness auto
termination
  by (relation "measure (\<lambda>(env, tid, i, s). maxPollTimes - i)") auto

definition pollGenerateTask :: "env \<Rightarrow> string \<Rightarrow> state \<Rightarrow> poll_data option outcome \<times> state" where
  "pollGenerateTask env tid s = poll_loop env tid 0 s"

subsection \<open>handleCancel\<close>

definition handleCancel :: "env \<Rightarrow> state \<Rightarrow> unit outcome \<times> state" where
  "handleCancel env s =
     (if currentTaskId s = [] then (Returns (), s)
      else
        (case axios_post (API_BASE env @ ''/api/generate/'' @ currentTaskId s @ ''/cancel'')
                EmptyBody 10000 (cancelRes env) s of
           (Returns _, s1) \<Rightarrow> (Returns (), perform (ElMessage success msg_cancel_sent) s1)
         | (Throws err, s1) \<Rightarrow>
             (Returns (), perform (ElMessage error (error_text err msg_cancel_failed)) s1)))"

subsection \<open>handleGenerate\<close>

text \<open>The body of the \<^verbatim>\<open>try\<close> block; \<open>start\<close> is the reading of the clock taken before it.\<close>

definition generate_try :: "env \<Rightarrow> payload \<Rightarrow> number \<Rightarrow> state \<Rightarrow> unit outcome \<times> state" where
  "generate_try env pl start s =
     (case axios_post (API_BASE env @ ''/api/generate'') (Body pl) 30000 (createRes env)
             (s\<lparr>loadingStatusText := text_creating\<rparr>) of
        (Throws err, s1) \<Rightarrow> (Throws err, s1)
      | (Returns createData, s1) \<Rightarrow>
          (case Option.bind createData data_taskId of
             None \<Rightarrow> (Throws (Error msg_no_taskId), s1)
           | Some tid \<Rightarrow>
               if tid = [] then (Throws (Error msg_no_taskId), s1)
               else
                 (let s2 = s1\<lparr>currentTaskId := tid\<rparr>;
                      s3 = upsertTask \<lparr>patch_taskId = tid, patch_progress = Some 0,
                             patch_stage = Some stage_created, patch_status = Some ''PENDING''\<rparr> s2
                  in case pollGenerateTask env tid s3 of
                       (Throws err, s4) \<Rightarrow> (Throws err, s4)
                     | (Returns result, s4) \<Rightarrow>
                         (let duration = (perf_end env - start) / 1000 in
                          (Returns (),
                           s4\<lparr>generatedResult := Some
                                \<lparr>code = js_nullish (Option.bind result data_code) 200,
                                 processTime = js_nullish (Option.bind result data_processTime)
                                                 (Number (toFixed1 env duration)),
                                 content = js_nullish (Option.bind result data_content) ''''\<rparr>\<rparr>)))))"

definition handleGenerate :: "env \<Rightarrow> state \<Rightarrow> unit outcome \<times> state" where
  "handleGenerate env s =
     (if url (projectData s) = [] then (Returns (), perform (ElMessage warning msg_need_url) s)
      else if prompt (projectData s) = [] then
        (Returns (), perform (ElMessage warning msg_need_prompt) s)
      else
        (let s1 = s\<lparr>loading := True, loadingPercent := 0, generatedResult := None\<rparr>;
             pl = \<lparr>video_url = url (projectData s1),
                   params = projectData.extend (projectData s1) (params.fields (now env))\<rparr>;
             s2 = perform (ConsoleLog pl) s1;
             startTime = perf_start env;
             s4 = (case generate_try env pl startTime s2 of
                     (Returns _, s3) \<Rightarrow> s3
                   | (Throws err, s3) \<Rightarrow>
                       perform (ConsoleError err)
                         (perform (ElMessage error (error_text err msg_request_error))
                            (s3\<lparr>loadingStatusText := text_request_failed\<rparr>)))
         in (Returns (), s4\<lparr>loading := False, currentTaskId := ''''\<rparr>)))"

subsection \<open>What a run did to the outside\<close>

fun is_request :: "event \<Rightarrow> bool" where
  "is_request (AxiosGet u t) = True"
| "is_request (AxiosPost u b t) = True"
| "is_request (Sleep ms) = False"
| "is_request (ElMessage l m) = False"
| "is_request (ConsoleLog p) = False"
| "is_request (ConsoleError e) = False"

definition requests :: "state \<Rightarrow> event list" where
  "requests s = filter is_request (effects s)"

fun slept :: "event \<Rightarrow> nat" where
  "slept (Sleep ms) = ms"
| "slept (AxiosGet u t) = 0"
| "slept (AxiosPost u b t) = 0"
| "slept (ElMessage l m) = 0"
| "slept (ConsoleLog p) = 0"
| "slept (ConsoleError e) = 0"

definition time_slept :: "state \<Rightarrow> nat" where
  "time_slept s = sum_list (map slept (effects s))"

section \<open>The second version of the component (src/unnamed/part_000)\<close>

text \<open>
  The same four functions as the script of \<^verbatim>\<open>src/unnamed/part_000\<close> writes them, translated
  statement by statement from that file.
\<close>

definition upsertTask_part0 :: "patch \<Rightarrow> state \<Rightarrow> state" where
  "upsertTask_part0 p s =
     (let idx = findIndex (\<lambda>item. taskId item = patch_taskId p) (taskList s) in
      if idx = None then
        s\<lparr>taskList :=
            \<lparr>taskId = patch_taskId p,
             progress = js_nullish (patch_progress p) 0,
             stage = js_nullish (patch_stage p) stage_creating,
             status = js_nullish (patch_status p) ''PENDING''\<rparr> # taskList s\<rparr>
      else s\<lparr>taskList := (taskList s)[the idx := spread (taskList s ! the idx) p]\<rparr>)"

function poll_loop_part0 ::
  "env \<Rightarrow> string \<Rightarrow> nat \<Rightarrow> state \<Rightarrow> poll_data option outcome \<times> state" where
  "poll_loop_part0 env tid i s =
     (if i < 600 then
        (case axios_get (API_BASE env @ ''/api/generate/'' @ tid) 15000 (pollRes env i) s of
           (Throws err, s1) \<Rightarrow> (Throws err, s1)
         | (Returns data, s1) \<Rightarrow>
             (let status = toUpperCase env (js_or (Option.bind data data_status) '''');
                  progress = Number (js_nullish (Option.bind data data_progress) 0);
                  stage = js_or (Option.bind data data_stage) '''';
                  s2 = upsertTask_part0 \<lparr>patch_taskId = tid, patch_progress = Some progress,
                         patch_stage = Some stage, patch_status = Some status\<rparr> s1;
                  s3 = s2\<lparr>loadingPercent := max 0 (min 100 progress)\<rparr>;
                  s4 = s3\<lparr>loadingStatusText := js_or (Some stage) text_processing\<rparr>
              in if status = ''PENDING'' then poll_loop_part0 env tid (Suc i) (sleep 2000 s4)
                 else if status = ''RUNNING'' then poll_loop_part0 env tid (Suc i) (sleep 2000 s4)
                 else if status = ''SUCCESS'' then
                   (let s5 = s4\<lparr>loadingPercent := 100\<rparr>;
                        s6 = s5\<lparr>loadingStatusText := stage_done\<rparr>
                    in (Returns data,
                        upsertTask_part0 \<lparr>patch_taskId = tid, patch_progress = Some 100,
                          patch_stage = Some stage_done, patch_status = Some status\<rparr> s6))
                 else if status = ''FAILED'' then
                   (Throws (Error (js_or (Option.bind data data_detail) msg_task_failed)),
                    upsertTask_part0 \<lparr>patch_taskId = tid, patch_progress = Some 100,
                      patch_stage = Some stage_failed, patch_status = Some status\<rparr> s4)
                 else if status = ''CANCELED'' then
                   (Throws (Error (js_or (Option.bind data data_detail) stage_canceled)),
                    upsertTask_part0 \<lparr>patch_taskId = tid, patch_progress = Some 100,
                      patch_stage = Some stage_canceled, patch_status = Some status\<rparr> s4)
                 else poll_loop_part0 env tid (Suc i) (sleep 2000 s4)))
      else (Throws (Error msg_poll_timeout), s))"
  by pat_completeness auto
termination
  by (relation "measure (\<lambda>(env, tid, i, s). 600 - i)") auto

definition pollGenerateTask_part0 ::
  "env \<Rightarrow> string \<Rightarrow> state \<Rightarrow> poll_data option outcome \<times> state" where
  "pollGenerateTask_part0 env tid s = poll_loop_part0 env tid 0 s"

definition handleCancel_part0 :: "env \<Rightarrow> state \<Rightarrow> unit outcome \<times> state" where
  "handleCancel_part0 env s =
     (if currentTaskId s = [] then (Returns (), s)
      else
        (case axios_post (API_BASE env @ ''/api/generate/'' @ currentTaskId s @ ''/cancel'')
                EmptyBody 10000 (cancelRes env) s of
           (Returns _, s1) \<Rightarrow> (Returns (), perform (ElMessage success msg_cancel_sent) s1)
         | (Throws err, s1) \<Rightarrow>
             (Returns (), perform (ElMessage error (error_text err msg_cancel_failed)) s1)))"

definition generate_try_part0 :: "env \<Rightarrow> payload \<Rightarrow> number \<Rightarrow> state \<Rightarrow> unit outcome \<times> state" where
  "generate_try_part0 env pl start s =
     (case axios_post (API_BASE env @ ''/api/generate'') (Body pl) 30000 (createRes env)
             (s\<lparr>loadingStatusText := text_creating\<rparr>) of
        (Throws err, s1) \<Rightarrow> (Throws err, s1)
      | (Returns createData, s1) \<Rightarrow>
          (case Option.bind createData data_taskId of
             None \<Rightarrow> (Throws (Error msg_no_taskId), s1)
           | Some tid \<Rightarrow>
               if tid = [] then (Throws (Error msg_no_taskId), s1)
               else
                 (let s2 = s1\<lparr>currentTaskId := tid\<rparr>;
                      s3 = upsertTask_part0 \<lparr>patch_taskId = tid, patch_progress = Some 0,
                             patch_stage = Some stage_created, patch_status = Some ''PENDING''\<rparr> s2
                  in case pollGenerateTask_part0 env tid s3 of
                       (Throws err, s4) \<Rightarrow> (Throws err, s4)
                     | (Returns result, s4) \<Rightarrow>
                         (let duration = (perf_end env - start) / 1000 in
                          (Returns (),
                           s4\<lparr>generatedResult := Some
                                \<lparr>code = js_nullish (Option.bind result data_code) 200,
                                 processTime = js_nullish (Option.bind result data_processTime)
                                                 (Number (toFixed1 env duration)),
                                 content = js_nullish (Option.bind result data_content) ''''\<rparr>\<rparr>)))))"

definition handleGenerate_part0 :: "env \<Rightarrow> state \<Rightarrow> unit outcome \<times> state" where
  "handleGenerate_part0 env s =
     (if url (projectData s) = [] then (Returns (), perform (ElMessage warning msg_need_url) s)
      else if prompt (projectData s) = [] then
        (Returns (), perform (ElMessage warning msg_need_prompt) s)
      else
        (let s1 = s\<lparr>loading := True, loadingPercent := 0, generatedResult := None\<rparr>;
             pl = \<lparr>video_url = url (projectData s1),
                   params = projectData.extend (projectData s1) (params.fields (now env))\<rparr>;
             s2 = perform (ConsoleLog pl) s1;
             startTime = perf_start env;
             s4 = (case generate_try_part0 env pl startTime s2 of
                     (Returns _, s3) \<Rightarrow> s3
                   | (Throws err, s3) \<Rightarrow>
                       perform (ConsoleError err)
                         (perform (ElMessage error (error_text err msg_request_error))
                            (s3\<lparr>loadingStatusText := text_request_failed\<rparr>)))
         in (Returns (), s4\<lparr>loading := False, currentTaskId := ''''\<rparr>)))"

section \<open>Sample inputs\<close>

text \<open>
  The state the component starts in (the initial values of its refs), the same state with
  the form filled in, and scripted answers of the backend. They instantiate the theorems
  below at concrete inputs.
\<close>

definition text_init :: string where
  "text_init = [CHR 0xE5, CHR 0x88, CHR 0x9D, CHR 0xE5, CHR 0xA7, CHR 0x8B, CHR 0xE5, CHR 0x8C, CHR 0x96, CHR 0xE8, CHR 0xBF, CHR 0x9E, CHR 0xE6, CHR 0x8E, CHR 0xA5] @ ''...''"

definition initial_state :: state where
  "initial_state =
     \<lparr>projectData =
        \<lparr>url = '''', prompt = '''', title = '''', type = ''summary'', engine = ''local'',
         timeRange = [0, 120], options = \<lparr>enableOCR = False, enhanceAudio = True\<rparr>\<rparr>,
      loading = False, loadingPercent = 0, loadingStatusText = text_init,
      generatedResult = None, taskList = [], currentTaskId = '''', effects = []\<rparr>"

definition filled_state :: state where
  "filled_state =
     initial_state\<lparr>projectData :=
       (projectData initial_state)\<lparr>url := ''https://example.com/v.mp4'', prompt := ''summarize''\<rparr>\<rparr>"

definition response :: "string \<Rightarrow> number \<Rightarrow> poll_data" where
  "response st p =
     \<lparr>data_status = Some st, data_progress = Some p, data_stage = None, data_detail = None,
      data_content = None, data_processTime = None, data_code = None\<rparr>"

definition sample_env :: "(nat \<Rightarrow> poll_data option outcome) \<Rightarrow> env" where
  "sample_env answers =
     \<lparr>API_BASE = ''http://localhost:8000'', toUpperCase = ascii_upper,
      toFixed1 = round_tenth, now = 1700000000000, perf_start = 120,
      perf_end = 4380, createRes = Returns (Some \<lparr>data_taskId = Some ''t1''\<rparr>),
      pollRes = answers, cancelRes = Throws (JsError (Some ''unknown task'') ''Request failed'')\<rparr>"

text \<open>A state whose task list holds two tasks.\<close>

definition two_tasks :: state where
  "two_tasks =
     initial_state\<lparr>taskList :=
       [\<lparr>taskId = ''t2'', progress = 100, stage = stage_done, status = ''SUCCESS''\<rparr>,
        \<lparr>taskId = ''t1'', progress = 0, stage = stage_created, status = ''PENDING''\<rparr>]\<rparr>"

text \<open>A backend that never gets past \<^verbatim>\<open>pending\<close> (written in lower case).\<close>

definition answers_pending :: "nat \<Rightarrow> poll_data option outcome" where
  "answers_pending i = Returns (Some (response ''pending'' 0))"

text \<open>A backend that reports \<^verbatim>\<open>RUNNING\<close> once and then success, with content and no \<^verbatim>\<open>processTime\<close>.\<close>

definition answers_success :: "nat \<Rightarrow> poll_data option outcome" where
  "answers_success i =
     (if i = 0 then Returns (Some (response ''RUNNING'' 40))
      else Returns (Some ((response ''success'' 100)\<lparr>data_content := Some ''summary''\<rparr>)))"

text \<open>
  A backend whose task was canceled, answering without a \<^verbatim>\<open>detail\<close>, and one whose task
  failed, answering with one.
\<close>

definition answers_canceled :: "nat \<Rightarrow> poll_data option outcome" where
  "answers_canceled i =
     (if i = 0 then Returns (Some (response ''RUNNING'' 40))
      else Returns (Some (response ''CANCELED'' 40)))"

definition answers_failed :: "nat \<Rightarrow> poll_data option outcome" where
  "answers_failed i =
     (if i = 0 then Returns (Some (response ''RUNNING'' 40))
      else Returns (Some ((response ''FAILED'' 60)\<lparr>data_detail := Some ''download failed''\<rparr>)))"

text \<open>A backend that reports a progress of 150 percent, and is unreachable afterwards.\<close>

definition answers_overshoot :: "nat \<Rightarrow> poll_data option outcome" where
  "answers_overshoot i =
     (if i = 0 then Returns (Some (response ''RUNNING'' 150))
      else Throws (JsError None ''Network Error''))"


section \<open>Facts about the embedding\<close>

declare poll_loop.simps [simp del] poll_loop_part0.simps [simp del]

subsection \<open>Texts and letter case\<close>

lemma timeout_text_distinct:
  "msg_poll_timeout \<noteq> msg_task_failed \<and> msg_poll_timeout \<noteq> stage_canceled"
  by (simp add: msg_poll_timeout_def msg_task_failed_def stage_canceled_def)

lemma stages_distinct: "stage_canceled \<noteq> stage_failed"
  by (simp add: stage_canceled_def stage_failed_def)

lemma fallbacks_distinct: "stage_canceled \<noteq> msg_task_failed"
  by (simp add: stage_canceled_def msg_task_failed_def)





subsection \<open>The task list\<close>

lemma findIndex_None_iff: "findIndex p xs = None \<longleftrightarrow> list_all (\<lambda>x. \<not> p x) xs"
  by (induction xs) auto

lemma findIndex_Some:
  "findIndex p xs = Some i \<Longrightarrow> i < length xs \<and> p (xs ! i) \<and> list_all (\<lambda>x. \<not> p x) (take i xs)"
  by (induction xs arbitrary: i) (auto split: if_splits)

lemma map_unmatched:
  "t \<notin> taskId ` set xs \<Longrightarrow> map (\<lambda>item. if taskId item = t then f item else item) xs = xs"
  by (induction xs) auto

lemma update_first_is_map:
  "distinct (map taskId xs) \<Longrightarrow> findIndex (\<lambda>item. taskId item = t) xs = Some i \<Longrightarrow>
     xs[i := f (xs ! i)] = map (\<lambda>item. if taskId item = t then f item else item) xs"
proof (induction xs arbitrary: i)
  case Nil
  then show ?case by simp
next
  case (Cons x xs)
  show ?case
  proof (cases "taskId x = t")
    case True
    with Cons.prems have "i = 0" and "t \<notin> taskId ` set xs" by auto
    then show ?thesis using True by (simp add: map_unmatched)
  next
    case False
    with Cons.prems obtain j where "i = Suc j" "findIndex (\<lambda>item. taskId item = t) xs = Some j"
      by auto
    with Cons False show ?thesis by simp
  qed
qed

lemma taskId_spread: "taskId (spread item p) = patch_taskId p"
  by (simp add: spread_def)

lemma find_update_first:
  "findIndex p xs = Some i \<Longrightarrow> p y \<Longrightarrow> find p (xs[i := y]) = Some y"
  by (induction xs arbitrary: i) (auto split: if_splits)

lemma effects_upsertTask: "effects (upsertTask p s) = effects s"
  by (simp add: upsertTask_def split: option.splits)

lemma loadingPercent_upsertTask: "loadingPercent (upsertTask p s) = loadingPercent s"
  by (simp add: upsertTask_def split: option.splits)

lemma generatedResult_upsertTask: "generatedResult (upsertTask p s) = generatedResult s"
  by (simp add: upsertTask_def split: option.splits)

lemma loadingStatusText_upsertTask:
  "loadingStatusText (upsertTask p s) = loadingStatusText s"
  by (simp add: upsertTask_def split: option.splits)

text \<open>After a call with all four keys given, the first entry with that id is the patch.\<close>

lemma find_upsertTask_full:
  "find (\<lambda>item. taskId item = tid)
     (taskList (upsertTask \<lparr>patch_taskId = tid, patch_progress = Some v,
        patch_stage = Some sg, patch_status = Some st\<rparr> s)) =
   Some \<lparr>taskId = tid, progress = v, stage = sg, status = st\<rparr>"
proof (cases "findIndex (\<lambda>item. taskId item = tid) (taskList s)")
  case None
  then show ?thesis by (simp add: upsertTask_def js_nullish_def)
next
  case (Some i)
  then show ?thesis by (simp add: upsertTask_def spread_def find_update_first)
qed

subsection \<open>Effects\<close>

lemma effects_perform: "effects (perform e s) = effects s @ [e]"
  by (simp add: perform_def)

lemma effects_sleep: "effects (sleep ms s) = effects s @ [Sleep ms]"
  by (simp add: sleep_def effects_perform)

lemma effects_record_poll: "effects (record_poll env tid d s) = effects s"
  by (simp add: record_poll_def Let_def effects_upsertTask)

text \<open>How the fields of the state fare under the operations; used as rewrite rules below.\<close>

lemmas state_simps =
  effects_upsertTask loadingPercent_upsertTask loadingStatusText_upsertTask
  generatedResult_upsertTask effects_perform effects_sleep effects_record_poll

subsection \<open>One iteration of the polling loop\<close>

lemma poll_loop_rejected:
  "i < maxPollTimes \<Longrightarrow> pollRes env i = Throws err \<Longrightarrow>
     poll_loop env tid i s =
       (Throws err, perform (AxiosGet (API_BASE env @ ''/api/generate/'' @ tid) 15000) s)"
  by (subst poll_loop.simps) (simp add: axios_get_def)

lemma poll_loop_continue:
  "i < maxPollTimes \<Longrightarrow> pollRes env i = Returns d \<Longrightarrow>
   poll_status env d \<noteq> ''SUCCESS'' \<Longrightarrow> poll_status env d \<noteq> ''FAILED'' \<Longrightarrow>
   poll_status env d \<noteq> ''CANCELED'' \<Longrightarrow>
     poll_loop env tid i s =
       poll_loop env tid (Suc i)
         (sleep 2000 (record_poll env tid d
            (perform (AxiosGet (API_BASE env @ ''/api/generate/'' @ tid) 15000) s)))"
  by (subst poll_loop.simps) (simp add: axios_get_def Let_def)

lemma poll_loop_success:
  "i < maxPollTimes \<Longrightarrow> pollRes env i = Returns d \<Longrightarrow> poll_status env d = ''SUCCESS'' \<Longrightarrow>
     poll_loop env tid i s =
       (Returns d,
        upsertTask \<lparr>patch_taskId = tid, patch_progress = Some 100,
            patch_stage = Some stage_done, patch_status = Some ''SUCCESS''\<rparr>
          ((record_poll env tid d
              (perform (AxiosGet (API_BASE env @ ''/api/generate/'' @ tid) 15000) s))
            \<lparr>loadingPercent := 100, loadingStatusText := stage_done\<rparr>))"
  by (subst poll_loop.simps) (simp add: axios_get_def Let_def)

lemma poll_loop_failed:
  "i < maxPollTimes \<Longrightarrow> pollRes env i = Returns d \<Longrightarrow> poll_status env d = ''FAILED'' \<Longrightarrow>
     poll_loop env tid i s =
       (Throws (Error (js_or (Option.bind d data_detail) msg_task_failed)),
        upsertTask \<lparr>patch_taskId = tid, patch_progress = Some 100,
            patch_stage = Some stage_failed, patch_status = Some ''FAILED''\<rparr>
          (record_poll env tid d
              (perform (AxiosGet (API_BASE env @ ''/api/generate/'' @ tid) 15000) s)))"
  by (subst poll_loop.simps) (simp add: axios_get_def Let_def)

lemma poll_loop_canceled:
  "i < maxPollTimes \<Longrightarrow> pollRes env i = Returns d \<Longrightarrow> poll_status env d = ''CANCELED'' \<Longrightarrow>
     poll_loop env tid i s =
       (Throws (Error (js_or (Option.bind d data_detail) stage_canceled)),
        upsertTask \<lparr>patch_taskId = tid, patch_progress = Some 100,
            patch_stage = Some stage_canceled, patch_status = Some ''CANCELED''\<rparr>
          (record_poll env tid d
              (perform (AxiosGet (API_BASE env @ ''/api/generate/'' @ tid) 15000) s)))"
  by (subst poll_loop.simps) (simp add: axios_get_def Let_def)

lemma poll_loop_exhausted:
  "\<not> i < maxPollTimes \<Longrightarrow> poll_loop env tid i s = (Throws (Error msg_poll_timeout), s)"
  by (subst poll_loop.simps) simp

subsection \<open>Runs of iterations that do not end the loop\<close>

text \<open>
  While the answers from iteration \<open>i\<close> up to \<open>n\<close> are bodies with a status that is not
  terminal, the loop arrives at iteration \<open>n\<close>, having sent one request and slept once
  for each of them.
\<close>

lemma poll_loop_skip:
  assumes "i \<le> n" and "n \<le> maxPollTimes"
    and "\<forall>j. i \<le> j \<and> j < n \<longrightarrow>
           (\<exists>d. pollRes env j = Returns d \<and> poll_status env d \<noteq> ''SUCCESS'' \<and>
                poll_status env d \<noteq> ''FAILED'' \<and> poll_status env d \<noteq> ''CANCELED'')"
  shows "\<exists>s'. poll_loop env tid i s = poll_loop env tid n s' \<and>
           effects s' = effects s @
             concat (replicate (n - i)
               [AxiosGet (API_BASE env @ ''/api/generate/'' @ tid) 15000, Sleep 2000])"
  using assms
proof (induction "n - i" arbitrary: i s)
  case 0
  then have "i = n" by simp
  then show ?case by (intro exI[of _ s]) simp
next
  case (Suc k)
  then have lt: "i < n" and imax: "i < maxPollTimes" by auto
  with Suc.prems obtain d where d: "pollRes env i = Returns d" "poll_status env d \<noteq> ''SUCCESS''"
      "poll_status env d \<noteq> ''FAILED''" "poll_status env d \<noteq> ''CANCELED''"
    by (metis order_refl)
  let ?s1 = "sleep 2000 (record_poll env tid d
            (perform (AxiosGet (API_BASE env @ ''/api/generate/'' @ tid) 15000) s))"
  have step: "poll_loop env tid i s = poll_loop env tid (Suc i) ?s1"
    using imax d by (rule poll_loop_continue)
  have k: "k = n - Suc i" using Suc.hyps(2) by simp
  have rest: "\<forall>j. Suc i \<le> j \<and> j < n \<longrightarrow>
           (\<exists>d. pollRes env j = Returns d \<and> poll_status env d \<noteq> ''SUCCESS'' \<and>
                poll_status env d \<noteq> ''FAILED'' \<and> poll_status env d \<noteq> ''CANCELED'')"
    using Suc.prems(3) by auto
  from Suc.hyps(1)[OF k _ Suc.prems(2) rest, of ?s1] lt
  obtain s' where s': "poll_loop env tid (Suc i) ?s1 = poll_loop env tid n s'"
      "effects s' = effects ?s1 @
             concat (replicate (n - Suc i)
               [AxiosGet (API_BASE env @ ''/api/generate/'' @ tid) 15000, Sleep 2000])"
    by auto
  have "n - i = Suc (n - Suc i)" using lt by simp
  with s' step show ?case by (intro exI[of _ s']) (simp add: state_simps)
qed

text \<open>Whatever the answers are, the loop sends at most one request per remaining iteration.\<close>

lemma requests_perform:
  "requests (perform e s) = requests s @ (if is_request e then [e] else [])"
  by (simp add: requests_def state_simps)

lemma poll_loop_bounded:
  "length (requests (snd (poll_loop env tid i s))) \<le> length (requests s) + (maxPollTimes - i)"
proof (induction "maxPollTimes - i" arbitrary: i s)
  case 0
  then show ?case by (simp add: poll_loop_exhausted)
next
  case (Suc k)
  then have imax: "i < maxPollTimes" and k: "k = maxPollTimes - Suc i" by auto
  show ?case
  proof (cases "pollRes env i")
    case (Throws err)
    with imax show ?thesis by (simp add: poll_loop_rejected requests_perform)
  next
    case (Returns d)
    let ?s0 = "perform (AxiosGet (API_BASE env @ ''/api/generate/'' @ tid) 15000) s"
    have r1: "requests (record_poll env tid d ?s0) = requests s @
        [AxiosGet (API_BASE env @ ''/api/generate/'' @ tid) 15000]"
      by (simp add: requests_def state_simps)
    consider "poll_status env d = ''SUCCESS''" | "poll_status env d = ''FAILED''"
      | "poll_status env d = ''CANCELED''"
      | "poll_status env d \<noteq> ''SUCCESS''" "poll_status env d \<noteq> ''FAILED''"
        "poll_status env d \<noteq> ''CANCELED''"
      by blast
    then show ?thesis
    proof cases
      case 1
      with imax Returns show ?thesis by (simp add: poll_loop_success requests_def state_simps)
    next
      case 2
      with imax Returns show ?thesis by (simp add: poll_loop_failed requests_def state_simps)
    next
      case 3
      with imax Returns show ?thesis by (simp add: poll_loop_canceled requests_def state_simps)
    next
      case 4
      let ?s1 = "sleep 2000 (record_poll env tid d ?s0)"
      have "poll_loop env tid i s = poll_loop env tid (Suc i) ?s1"
        using imax Returns 4 by (rule poll_loop_continue)
      moreover have "length (requests (snd (poll_loop env tid (Suc i) ?s1)))
          \<le> length (requests ?s1) + (maxPollTimes - Suc i)"
        using k by (rule Suc.hyps(1))
      moreover have "length (requests ?s1) = Suc (length (requests s))"
        by (simp add: requests_def state_simps)
      ultimately show ?thesis using imax by simp
    qed
  qed
qed

text \<open>The loop run from the start up to the first answer that is not a reason to go on.\<close>

lemma pollGenerateTask_reaches:
  assumes "n < 600"
    and "\<forall>j<n. \<exists>d. pollRes env j = Returns d \<and>
           poll_status env d \<notin> {''SUCCESS'', ''FAILED'', ''CANCELED''}"
  shows "\<exists>s'. pollGenerateTask env tid s = poll_loop env tid n s' \<and>
           effects s' = effects s @
             concat (replicate n
               [AxiosGet (API_BASE env @ ''/api/generate/'' @ tid) 15000, Sleep 2000])"
proof -
  have "\<forall>j. 0 \<le> j \<and> j < n \<longrightarrow>
           (\<exists>d. pollRes env j = Returns d \<and> poll_status env d \<noteq> ''SUCCESS'' \<and>
                poll_status env d \<noteq> ''FAILED'' \<and> poll_status env d \<noteq> ''CANCELED'')"
    using assms(2) by auto
  from poll_loop_skip[OF _ _ this, of tid s] assms(1)
  show ?thesis by (simp add: pollGenerateTask_def maxPollTimes_def)
qed

subsection \<open>The status of the sample answers\<close>

lemma sample_env_fields:
  "pollRes (sample_env a) = a"
  "API_BASE (sample_env a) = ''http://localhost:8000''"
  "toUpperCase (sample_env a) = ascii_upper"
  by (simp_all add: sample_env_def)

lemma poll_status_samples:
  "poll_status (sample_env a) (Some (response ''pending'' p)) = ''PENDING''"
  "poll_status (sample_env a) (Some (response ''RUNNING'' p)) = ''RUNNING''"
  "poll_status (sample_env a) (Some ((response ''success'' p)\<lparr>data_content := ct\<rparr>)) = ''SUCCESS''"
  "poll_status (sample_env a) (Some ((response ''FAILED'' p)\<lparr>data_detail := dt\<rparr>)) = ''FAILED''"
  "poll_status (sample_env a) (Some (response ''Queued'' p)) = ''QUEUED''"
  "poll_status (sample_env a) (Some (response ''CANCELED'' p)) = ''CANCELED''"
  by (simp_all add: poll_status_def sample_env_def response_def js_or_def ascii_upper_def
      upper_char_def)

section \<open>The claims\<close>


subsection \<open>C1: polling is bounded and ends in a timeout of the client's own\<close>

lemma slept_rounds:
  "sum_list (map slept (concat (replicate k [AxiosGet u t, Sleep ms]))) = k * ms"
  by (induction k) simp_all

text \<open>
  \<^bold>\<open>C1.\<close> Whatever the backend answers, \<^verbatim>\<open>pollGenerateTask\<close> sends at most 600 requests. When every
  one of the 600 answers has status \<^verbatim>\<open>PENDING\<close> or \<^verbatim>\<open>RUNNING\<close>, it sends exactly 600 requests, each
  followed by a sleep of 2000 ms (1200000 ms, twenty minutes, in all), and then throws an
  error that carries no response of the server and whose message is the fixed timeout
  text, which is neither of the fallback messages used for a failed or canceled task.
\<close>

theorem pollGenerateTask_times_out:
  "length (requests (snd (pollGenerateTask env tid s))) \<le> length (requests s) + 600 \<and>
   ((\<forall>i<600. \<exists>d. pollRes env i = Returns d \<and>
        (poll_status env d = ''PENDING'' \<or> poll_status env d = ''RUNNING'')) \<longrightarrow>
    fst (pollGenerateTask env tid s) = Throws (JsError None msg_poll_timeout) \<and>
    effects (snd (pollGenerateTask env tid s)) =
      effects s @ concat (replicate 600
        [AxiosGet (API_BASE env @ ''/api/generate/'' @ tid) 15000, Sleep 2000]) \<and>
    time_slept (snd (pollGenerateTask env tid s)) = time_slept s + 1200000 \<and>
    msg_poll_timeout \<noteq> msg_task_failed \<and> msg_poll_timeout \<noteq> stage_canceled)"
proof (intro conjI impI)
  show "length (requests (snd (pollGenerateTask env tid s))) \<le> length (requests s) + 600"
    using poll_loop_bounded[of env tid 0 s] by (simp add: pollGenerateTask_def maxPollTimes_def)
next
  assume pending: "\<forall>i<600. \<exists>d. pollRes env i = Returns d \<and>
        (poll_status env d = ''PENDING'' \<or> poll_status env d = ''RUNNING'')"
  have "\<forall>j. 0 \<le> j \<and> j < maxPollTimes \<longrightarrow>
           (\<exists>d. pollRes env j = Returns d \<and> poll_status env d \<noteq> ''SUCCESS'' \<and>
                poll_status env d \<noteq> ''FAILED'' \<and> poll_status env d \<noteq> ''CANCELED'')"
  proof (intro allI impI)
    fix j assume "0 \<le> j \<and> j < maxPollTimes"
    then have "j < 600" by (simp add: maxPollTimes_def)
    with pending obtain d where "pollRes env j = Returns d"
      "poll_status env d = ''PENDING'' \<or> poll_status env d = ''RUNNING''" by blast
    then show "\<exists>d. pollRes env j = Returns d \<and> poll_status env d \<noteq> ''SUCCESS'' \<and>
                poll_status env d \<noteq> ''FAILED'' \<and> poll_status env d \<noteq> ''CANCELED''"
      by auto
  qed
  from poll_loop_skip[OF _ _ this, of tid s]
  obtain s' where s': "poll_loop env tid 0 s = poll_loop env tid maxPollTimes s'"
    "effects s' = effects s @ concat (replicate maxPollTimes
        [AxiosGet (API_BASE env @ ''/api/generate/'' @ tid) 15000, Sleep 2000])"
    by auto
  have run: "pollGenerateTask env tid s = (Throws (Error msg_poll_timeout), s')"
    using s'(1) by (simp add: pollGenerateTask_def poll_loop_exhausted)
  show "fst (pollGenerateTask env tid s) = Throws (JsError None msg_poll_timeout)"
    using run by (simp add: Error_def)
  show "effects (snd (pollGenerateTask env tid s)) =
      effects s @ concat (replicate 600
        [AxiosGet (API_BASE env @ ''/api/generate/'' @ tid) 15000, Sleep 2000])"
    using run s'(2) by (simp add: maxPollTimes_def)
  show "time_slept (snd (pollGenerateTask env tid s)) = time_slept s + 1200000"
    using run s'(2) by (simp add: time_slept_def slept_rounds maxPollTimes_def)
  show "msg_poll_timeout \<noteq> msg_task_failed" "msg_poll_timeout \<noteq> stage_canceled"
    using timeout_text_distinct by simp_all
qed

theorem pollGenerateTask_times_out_witness:
  "fst (pollGenerateTask (sample_env answers_pending) ''t1'' initial_state) =
     Throws (JsError None msg_poll_timeout) \<and>
   time_slept (snd (pollGenerateTask (sample_env answers_pending) ''t1'' initial_state)) =
     1200000"
proof -
  have "\<forall>i<600. \<exists>d. pollRes (sample_env answers_pending) i = Returns d \<and>
        (poll_status (sample_env answers_pending) d = ''PENDING'' \<or> poll_status (sample_env answers_pending) d = ''RUNNING'')"
    by (simp add: sample_env_fields answers_pending_def poll_status_samples)
  moreover have "time_slept initial_state = 0"
    by (simp add: time_slept_def initial_state_def)
  ultimately show ?thesis
    using pollGenerateTask_times_out[of "sample_env answers_pending" "''t1''" initial_state]
    by simp
qed

subsection \<open>C3: no request without a link and a prompt\<close>

text \<open>
  \<^bold>\<open>C3.\<close> When \<^verbatim>\<open>projectData.url\<close> or \<^verbatim>\<open>projectData.prompt\<close> is empty, \<^verbatim>\<open>handleGenerate\<close> shows one
  warning and returns: it sends no HTTP request, and apart from the warning the state of
  the component is as before.
\<close>

theorem handleGenerate_needs_url_and_prompt:
  assumes "url (projectData s) = [] \<or> prompt (projectData s) = []"
  shows "handleGenerate env s =
           (Returns (),
            s\<lparr>effects := effects s @
                [ElMessage warning
                   (if url (projectData s) = [] then msg_need_url else msg_need_prompt)]\<rparr>) \<and>
         requests (snd (handleGenerate env s)) = requests s"
  using assms by (auto simp: handleGenerate_def perform_def requests_def)

theorem handleGenerate_needs_url_and_prompt_witness:
  "handleGenerate (sample_env answers_success) initial_state =
     (Returns (), initial_state\<lparr>effects := [ElMessage warning msg_need_url]\<rparr>) \<and>
   requests (snd (handleGenerate (sample_env answers_success) initial_state)) = []"
proof -
  have "url (projectData initial_state) = [] \<or> prompt (projectData initial_state) = []"
    by (simp add: initial_state_def)
  from handleGenerate_needs_url_and_prompt[OF this, of "sample_env answers_success"]
  show ?thesis by (simp add: initial_state_def requests_def)
qed

subsection \<open>C4: the progress the client records\<close>

text \<open>
  The loading indicator is clamped into the range from 0 to 100; the list entry is
  written before the clamp and holds the progress as the backend reported it.
\<close>

lemma record_poll_progress:
  "0 \<le> loadingPercent (record_poll env tid data s) \<and> loadingPercent (record_poll env tid data s) \<le> 100 \<and>
   find (\<lambda>item. taskId item = tid) (taskList (record_poll env tid data s)) =
     Some \<lparr>taskId = tid, progress = poll_progress data, stage = poll_stage data,
           status = poll_status env data\<rparr>"
proof -
  have "taskList (record_poll env tid data s) =
      taskList (upsertTask \<lparr>patch_taskId = tid, patch_progress = Some (poll_progress data),
        patch_stage = Some (poll_stage data), patch_status = Some (poll_status env data)\<rparr> s)"
    by (simp add: record_poll_def Let_def)
  then show ?thesis
    by (simp add: find_upsertTask_full) (simp add: record_poll_def Let_def)
qed

text \<open>
  \<^bold>\<open>C4.\<close> Not every progress the client records stays between 0 and 100. The backend answers
  the first request with \<^verbatim>\<open>{status: 'RUNNING', progress: 150}\<close> and is unreachable afterwards.
  When \<^verbatim>\<open>pollGenerateTask\<close> has ended, the loading indicator holds 100, and the list entry of
  the task holds 150.
\<close>

theorem reported_progress_is_listed_unclamped:
  "loadingPercent (snd (pollGenerateTask (sample_env answers_overshoot) ''t1'' initial_state)) =
     100 \<and>
   taskList (snd (pollGenerateTask (sample_env answers_overshoot) ''t1'' initial_state)) =
     [\<lparr>taskId = ''t1'', progress = 150, stage = '''', status = ''RUNNING''\<rparr>] \<and>
   fst (pollGenerateTask (sample_env answers_overshoot) ''t1'' initial_state) =
     Throws (JsError None ''Network Error'')"
proof -
  have r0: "pollRes (sample_env answers_overshoot) 0 = Returns (Some (response ''RUNNING'' 150))"
    and r1: "pollRes (sample_env answers_overshoot) (Suc 0) = Throws (JsError None ''Network Error'')"
    by (simp_all add: sample_env_def answers_overshoot_def)
  have st: "poll_status (sample_env answers_overshoot) (Some (response ''RUNNING'' 150)) = ''RUNNING''"
    by (rule poll_status_samples)
  have "pollGenerateTask (sample_env answers_overshoot) ''t1'' initial_state =
      poll_loop (sample_env answers_overshoot) ''t1'' (Suc 0)
        (sleep 2000 (record_poll (sample_env answers_overshoot) ''t1'' (Some (response ''RUNNING'' 150))
           (perform (AxiosGet (API_BASE (sample_env answers_overshoot) @ ''/api/generate/'' @ ''t1'')
              15000) initial_state)))"
    unfolding pollGenerateTask_def
    by (rule poll_loop_continue[OF _ r0]) (simp_all add: st maxPollTimes_def)
  also have "\<dots> =
      (Throws (JsError None ''Network Error''),
       perform (AxiosGet (API_BASE (sample_env answers_overshoot) @ ''/api/generate/'' @ ''t1'') 15000)
        (sleep 2000 (record_poll (sample_env answers_overshoot) ''t1'' (Some (response ''RUNNING'' 150))
           (perform (AxiosGet (API_BASE (sample_env answers_overshoot) @ ''/api/generate/'' @ ''t1'')
              15000) initial_state))))"
    by (rule poll_loop_rejected) (simp_all add: r1 maxPollTimes_def)
  finally show ?thesis
    by (simp add: perform_def sleep_def record_poll_def Let_def upsertTask_def
        poll_status_def sample_env_def ascii_upper_def upper_char_def poll_progress_def poll_stage_def
        response_def js_or_def js_nullish_def Number_def initial_state_def)
qed

subsection \<open>C5: the first answer with status SUCCESS ends polling\<close>

lemma pollGenerateTask_success:
  assumes "n < 600"
    and "\<forall>j<n. \<exists>d. pollRes env j = Returns d \<and>
           poll_status env d \<notin> {''SUCCESS'', ''FAILED'', ''CANCELED''}"
    and "pollRes env n = Returns data" and "poll_status env data = ''SUCCESS''"
  shows "\<exists>s'. effects s' = effects s @
             concat (replicate n
               [AxiosGet (API_BASE env @ ''/api/generate/'' @ tid) 15000, Sleep 2000]) \<and>
           pollGenerateTask env tid s =
             (Returns data,
              upsertTask \<lparr>patch_taskId = tid, patch_progress = Some 100,
                  patch_stage = Some stage_done, patch_status = Some ''SUCCESS''\<rparr>
                ((record_poll env tid data
                    (perform (AxiosGet (API_BASE env @ ''/api/generate/'' @ tid) 15000) s'))
                  \<lparr>loadingPercent := 100, loadingStatusText := stage_done\<rparr>))"
proof -
  from pollGenerateTask_reaches[OF assms(1,2), where tid = tid and s = s]
  obtain s' where s': "pollGenerateTask env tid s = poll_loop env tid n s'"
    "effects s' = effects s @ concat (replicate n
               [AxiosGet (API_BASE env @ ''/api/generate/'' @ tid) 15000, Sleep 2000])"
    by blast
  have "n < maxPollTimes" using assms(1) by (simp add: maxPollTimes_def)
  from poll_loop_success[OF this assms(3,4), where tid = tid and s = s'] s' show ?thesis
    by (intro exI[of _ s']) simp
qed

text \<open>What \<^verbatim>\<open>handleGenerate\<close> does once the task was created and polling returns a payload.\<close>

lemma handleGenerate_stores_result:
  assumes "url (projectData s) \<noteq> []" and "prompt (projectData s) \<noteq> []"
    and "createRes env = Returns (Some c)" and "data_taskId c = Some tid" and "tid \<noteq> []"
    and poll: "\<And>s0. fst (pollGenerateTask env tid s0) = Returns data"
  shows "fst (handleGenerate env s) = Returns () \<and>
         generatedResult (snd (handleGenerate env s)) =
           Some \<lparr>code = js_nullish (Option.bind data data_code) 200,
                 processTime = js_nullish (Option.bind data data_processTime)
                   (toFixed1 env ((perf_end env - perf_start env) / 1000)),
                 content = js_nullish (Option.bind data data_content) ''''\<rparr> \<and>
         loading (snd (handleGenerate env s)) = False \<and>
         currentTaskId (snd (handleGenerate env s)) = ''''"
proof -
  have ret: "r = Returns data" if "pollGenerateTask env tid s0 = (r, s1)" for s0 r s1
    using poll[of s0] that by simp
  show ?thesis
    using assms(1-5)
    by (auto simp: handleGenerate_def generate_try_def Let_def axios_post_def Number_def
        state_simps split: prod.splits outcome.splits dest: ret)
qed

text \<open>
  \<^bold>\<open>C5.\<close> Let the answers before the \<open>n\<close>-th (\<open>n < 600\<close>) be bodies whose status is not terminal,
  and let the \<open>n\<close>-th be a body with status \<^verbatim>\<open>SUCCESS\<close>. Then \<^verbatim>\<open>pollGenerateTask\<close> returns that
  body after \<open>n + 1\<close> requests, with no sleep and no request after the last one; the loading
  indicator is 100 and the list entry of the task has progress 100. When moreover the form
  is filled in and task creation answered with this task id, \<^verbatim>\<open>handleGenerate\<close> stores a
  result whose \<^verbatim>\<open>content\<close> is that of the body (the empty string if it has none) and
  whose \<^verbatim>\<open>processTime\<close> is that of the body, or else the duration the client measured:
  the seconds between its two clock readings, rounded to one decimal by the runtime.
\<close>

theorem success_ends_polling:
  assumes "n < 600"
    and "\<forall>j<n. \<exists>d. pollRes env j = Returns d \<and>
           poll_status env d \<notin> {''SUCCESS'', ''FAILED'', ''CANCELED''}"
    and "pollRes env n = Returns data" and "poll_status env data = ''SUCCESS''"
  shows "fst (pollGenerateTask env tid s) = Returns data \<and>
         loadingPercent (snd (pollGenerateTask env tid s)) = 100 \<and>
         loadingStatusText (snd (pollGenerateTask env tid s)) = stage_done \<and>
         find (\<lambda>item. taskId item = tid) (taskList (snd (pollGenerateTask env tid s))) =
           Some \<lparr>taskId = tid, progress = 100, stage = stage_done, status = ''SUCCESS''\<rparr> \<and>
         effects (snd (pollGenerateTask env tid s)) =
           effects s @
           concat (replicate n
             [AxiosGet (API_BASE env @ ''/api/generate/'' @ tid) 15000, Sleep 2000]) @
           [AxiosGet (API_BASE env @ ''/api/generate/'' @ tid) 15000] \<and>
         (url (projectData s) \<noteq> [] \<and> prompt (projectData s) \<noteq> [] \<and>
          createRes env = Returns (Some c) \<and> data_taskId c = Some tid \<and> tid \<noteq> [] \<longrightarrow>
            fst (handleGenerate env s) = Returns () \<and>
            generatedResult (snd (handleGenerate env s)) =
              Some \<lparr>code = js_nullish (Option.bind data data_code) 200,
                    processTime = js_nullish (Option.bind data data_processTime)
                      (toFixed1 env ((perf_end env - perf_start env) / 1000)),
                    content = js_nullish (Option.bind data data_content) ''''\<rparr> \<and>
            loading (snd (handleGenerate env s)) = False \<and>
            currentTaskId (snd (handleGenerate env s)) = '''')"
proof -
  note run = pollGenerateTask_success[OF assms]
  from run[where tid = tid and s = s] obtain s' where s':
    "effects s' = effects s @ concat (replicate n
               [AxiosGet (API_BASE env @ ''/api/generate/'' @ tid) 15000, Sleep 2000])"
    "pollGenerateTask env tid s =
             (Returns data,
              upsertTask \<lparr>patch_taskId = tid, patch_progress = Some 100,
                  patch_stage = Some stage_done, patch_status = Some ''SUCCESS''\<rparr>
                ((record_poll env tid data
                    (perform (AxiosGet (API_BASE env @ ''/api/generate/'' @ tid) 15000) s'))
                  \<lparr>loadingPercent := 100, loadingStatusText := stage_done\<rparr>))"
    by blast
  have poll: "fst (pollGenerateTask env tid s0) = Returns data" for s0
    using run[where tid = tid and s = s0] by auto
  have "fst (pollGenerateTask env tid s) = Returns data"
    by (rule poll)
  moreover have "loadingPercent (snd (pollGenerateTask env tid s)) = 100"
    and "loadingStatusText (snd (pollGenerateTask env tid s)) = stage_done"
    and "effects (snd (pollGenerateTask env tid s)) =
           effects s @
           concat (replicate n
             [AxiosGet (API_BASE env @ ''/api/generate/'' @ tid) 15000, Sleep 2000]) @
           [AxiosGet (API_BASE env @ ''/api/generate/'' @ tid) 15000]"
    using s' by (simp_all add: state_simps)
  moreover have "find (\<lambda>item. taskId item = tid) (taskList (snd (pollGenerateTask env tid s))) =
           Some \<lparr>taskId = tid, progress = 100, stage = stage_done, status = ''SUCCESS''\<rparr>"
    unfolding s'(2) snd_conv by (rule find_upsertTask_full)
  moreover have "fst (handleGenerate env s) = Returns () \<and>
            generatedResult (snd (handleGenerate env s)) =
              Some \<lparr>code = js_nullish (Option.bind data data_code) 200,
                    processTime = js_nullish (Option.bind data data_processTime)
                      (toFixed1 env ((perf_end env - perf_start env) / 1000)),
                    content = js_nullish (Option.bind data data_content) ''''\<rparr> \<and>
            loading (snd (handleGenerate env s)) = False \<and>
            currentTaskId (snd (handleGenerate env s)) = ''''"
    if "url (projectData s) \<noteq> [] \<and> prompt (projectData s) \<noteq> [] \<and>
          createRes env = Returns (Some c) \<and> data_taskId c = Some tid \<and> tid \<noteq> []"
  proof -
    from that have "url (projectData s) \<noteq> []" "prompt (projectData s) \<noteq> []"
      "createRes env = Returns (Some c)" "data_taskId c = Some tid" "tid \<noteq> []"
      by blast+
    then show ?thesis using poll by (rule handleGenerate_stores_result)
  qed
  ultimately show ?thesis by blast
qed

theorem success_ends_polling_witness:
  "fst (pollGenerateTask (sample_env answers_success) ''t1'' filled_state) =
     Returns (Some ((response ''success'' 100)\<lparr>data_content := Some ''summary''\<rparr>)) \<and>
   loadingPercent (snd (pollGenerateTask (sample_env answers_success) ''t1'' filled_state)) = 100 \<and>
   effects (snd (pollGenerateTask (sample_env answers_success) ''t1'' filled_state)) =
     [AxiosGet ''http://localhost:8000/api/generate/t1'' 15000, Sleep 2000,
      AxiosGet ''http://localhost:8000/api/generate/t1'' 15000] \<and>
   generatedResult (snd (handleGenerate (sample_env answers_success) filled_state)) =
     Some \<lparr>code = 200, processTime = 4.3, content = ''summary''\<rparr>"
proof -
  have "(1::nat) < 600" by simp
  moreover have "\<forall>j<1. \<exists>d. pollRes (sample_env answers_success) j = Returns d \<and>
           poll_status (sample_env answers_success) d \<notin> {''SUCCESS'', ''FAILED'', ''CANCELED''}"
    by (simp add: sample_env_fields answers_success_def poll_status_samples)
  moreover have "pollRes (sample_env answers_success) 1 =
      Returns (Some ((response ''success'' 100)\<lparr>data_content := Some ''summary''\<rparr>))"
    by (simp add: sample_env_def answers_success_def)
  moreover have "poll_status (sample_env answers_success) (Some ((response ''success'' 100)\<lparr>data_content := Some ''summary''\<rparr>)) =
      ''SUCCESS''"
    by (rule poll_status_samples)
  ultimately show ?thesis
    using success_ends_polling[of 1 "sample_env answers_success"
        "Some ((response ''success'' 100)\<lparr>data_content := Some ''summary''\<rparr>)" "''t1''"
        filled_state "\<lparr>data_taskId = Some ''t1''\<rparr>"]
    by (simp add: sample_env_def filled_state_def initial_state_def response_def js_nullish_def
        round_tenth_def)
qed

subsection \<open>C6: a failed or canceled task makes the poll throw\<close>

text \<open>
  \<^bold>\<open>C6.\<close> Let the answers before the \<open>n\<close>-th (\<open>n < 600\<close>) be bodies whose status is not terminal,
  and let the \<open>n\<close>-th be a body with status \<^verbatim>\<open>FAILED\<close> or \<^verbatim>\<open>CANCELED\<close>. Then \<^verbatim>\<open>pollGenerateTask\<close> ends
  with that request, throws and returns no payload. The error carries the \<^verbatim>\<open>detail\<close> of the
  body when the body has one, that is a string that is not empty; otherwise (no \<^verbatim>\<open>detail\<close>,
  or the empty string, which \<^verbatim>\<open>||\<close> treats alike) it carries the fallback text of the status.
  The two statuses go through branches of their own: the list entry of the task gets
  progress 100 and the stage of its status, the stage of a canceled task is not the
  stage of a failed one, and the fallback text of a canceled task is not that of a
  failed one.
\<close>

theorem terminal_failure_throws:
  assumes "n < 600"
    and "\<forall>j<n. \<exists>d. pollRes env j = Returns d \<and>
           poll_status env d \<notin> {''SUCCESS'', ''FAILED'', ''CANCELED''}"
    and "pollRes env n = Returns data"
    and "poll_status env data = ''FAILED'' \<or> poll_status env data = ''CANCELED''"
  shows "fst (pollGenerateTask env tid s) =
           Throws (JsError None
             (case Option.bind data data_detail of
                None \<Rightarrow> if poll_status env data = ''FAILED'' then msg_task_failed else stage_canceled
              | Some x \<Rightarrow>
                  if x = [] then
                    if poll_status env data = ''FAILED'' then msg_task_failed else stage_canceled
                  else x)) \<and>
         find (\<lambda>item. taskId item = tid) (taskList (snd (pollGenerateTask env tid s))) =
           Some \<lparr>taskId = tid, progress = 100,
                 stage = (if poll_status env data = ''FAILED'' then stage_failed else stage_canceled),
                 status = poll_status env data\<rparr> \<and>
         stage_canceled \<noteq> stage_failed \<and>
         stage_canceled \<noteq> msg_task_failed \<and>
         effects (snd (pollGenerateTask env tid s)) =
           effects s @
           concat (replicate n
             [AxiosGet (API_BASE env @ ''/api/generate/'' @ tid) 15000, Sleep 2000]) @
           [AxiosGet (API_BASE env @ ''/api/generate/'' @ tid) 15000]"
proof -
  from pollGenerateTask_reaches[OF assms(1,2), where tid = tid and s = s]
  obtain s' where s': "pollGenerateTask env tid s = poll_loop env tid n s'"
    "effects s' = effects s @ concat (replicate n
               [AxiosGet (API_BASE env @ ''/api/generate/'' @ tid) 15000, Sleep 2000])"
    by blast
  have n: "n < maxPollTimes" using assms(1) by (simp add: maxPollTimes_def)
  from assms(4) show ?thesis
  proof
    assume st: "poll_status env data = ''FAILED''"
    from poll_loop_failed[OF n assms(3) st, where tid = tid and s = s'] s'
    show ?thesis
      by (simp add: st Error_def js_or_def find_upsertTask_full stages_distinct
          fallbacks_distinct state_simps split: option.splits)
  next
    assume st: "poll_status env data = ''CANCELED''"
    from poll_loop_canceled[OF n assms(3) st, where tid = tid and s = s'] s'
    show ?thesis
      by (simp add: st Error_def js_or_def find_upsertTask_full stages_distinct
          fallbacks_distinct state_simps split: option.splits)
  qed
qed

theorem terminal_failure_throws_witness:
  "fst (pollGenerateTask (sample_env answers_failed) ''t1'' initial_state) =
     Throws (JsError None ''download failed'') \<and>
   find (\<lambda>item. taskId item = ''t1'')
     (taskList (snd (pollGenerateTask (sample_env answers_failed) ''t1'' initial_state))) =
     Some \<lparr>taskId = ''t1'', progress = 100, stage = stage_failed, status = ''FAILED''\<rparr> \<and>
   fst (pollGenerateTask (sample_env answers_canceled) ''t1'' initial_state) =
     Throws (JsError None stage_canceled) \<and>
   find (\<lambda>item. taskId item = ''t1'')
     (taskList (snd (pollGenerateTask (sample_env answers_canceled) ''t1'' initial_state))) =
     Some \<lparr>taskId = ''t1'', progress = 100, stage = stage_canceled, status = ''CANCELED''\<rparr>"
proof -
  have n: "(1::nat) < 600" by simp
  have f0: "\<forall>j<1. \<exists>d. pollRes (sample_env answers_failed) j = Returns d \<and>
           poll_status (sample_env answers_failed) d \<notin> {''SUCCESS'', ''FAILED'', ''CANCELED''}"
    by (simp add: sample_env_fields answers_failed_def poll_status_samples)
  have f1: "pollRes (sample_env answers_failed) 1 =
      Returns (Some ((response ''FAILED'' 60)\<lparr>data_detail := Some ''download failed''\<rparr>))"
    by (simp add: sample_env_fields answers_failed_def)
  have f2: "poll_status (sample_env answers_failed)
        (Some ((response ''FAILED'' 60)\<lparr>data_detail := Some ''download failed''\<rparr>)) = ''FAILED'' \<or>
      poll_status (sample_env answers_failed)
        (Some ((response ''FAILED'' 60)\<lparr>data_detail := Some ''download failed''\<rparr>)) = ''CANCELED''"
    by (simp add: poll_status_samples)
  have c0: "\<forall>j<1. \<exists>d. pollRes (sample_env answers_canceled) j = Returns d \<and>
           poll_status (sample_env answers_canceled) d \<notin> {''SUCCESS'', ''FAILED'', ''CANCELED''}"
    by (simp add: sample_env_fields answers_canceled_def poll_status_samples)
  have c1: "pollRes (sample_env answers_canceled) 1 = Returns (Some (response ''CANCELED'' 40))"
    by (simp add: sample_env_fields answers_canceled_def)
  have c2: "poll_status (sample_env answers_canceled) (Some (response ''CANCELED'' 40)) = ''FAILED'' \<or>
      poll_status (sample_env answers_canceled) (Some (response ''CANCELED'' 40)) = ''CANCELED''"
    by (simp add: poll_status_samples)
  have nd: "data_detail (response ''CANCELED'' 40) = None"
    by (simp add: response_def)
  from terminal_failure_throws[OF n f0 f1 f2, of "''t1''" initial_state]
    terminal_failure_throws[OF n c0 c1 c2, of "''t1''" initial_state] nd
  show ?thesis
    by (simp add: poll_status_samples)
qed

subsection \<open>C7: handleCancel never raises\<close>

text \<open>
  \<^bold>\<open>C7.\<close> \<^verbatim>\<open>handleCancel\<close> always returns normally. Without a current task id it does nothing at
  all. With one, it posts the cancel request for that id (empty body, timeout 10000 ms);
  when the request succeeds it shows a success message, and when the request fails the
  error ends up in an error message and nowhere else. Only the effects change.
\<close>

theorem handleCancel_never_raises:
  "fst (handleCancel env s) = Returns () \<and>
   (currentTaskId s = [] \<longrightarrow> snd (handleCancel env s) = s) \<and>
   (currentTaskId s \<noteq> [] \<and> cancelRes env = Returns u \<longrightarrow>
      snd (handleCancel env s) =
        s\<lparr>effects := effects s @
            [AxiosPost (API_BASE env @ ''/api/generate/'' @ currentTaskId s @ ''/cancel'')
               EmptyBody 10000,
             ElMessage success msg_cancel_sent]\<rparr>) \<and>
   (currentTaskId s \<noteq> [] \<and> cancelRes env = Throws err \<longrightarrow>
      snd (handleCancel env s) =
        s\<lparr>effects := effects s @
            [AxiosPost (API_BASE env @ ''/api/generate/'' @ currentTaskId s @ ''/cancel'')
               EmptyBody 10000,
             ElMessage error
               (js_or (response_detail err) (js_or (Some (message err)) msg_cancel_failed))]\<rparr>)"
  by (auto simp: handleCancel_def axios_post_def perform_def error_text_def
      split: outcome.splits)

theorem handleCancel_never_raises_witness:
  "fst (handleCancel (sample_env answers_pending) (initial_state\<lparr>currentTaskId := ''t1''\<rparr>)) =
     Returns () \<and>
   effects (snd (handleCancel (sample_env answers_pending)
                  (initial_state\<lparr>currentTaskId := ''t1''\<rparr>))) =
     [AxiosPost ''http://localhost:8000/api/generate/t1/cancel'' EmptyBody 10000,
      ElMessage error ''unknown task''] \<and>
   snd (handleCancel (sample_env answers_pending) initial_state) = initial_state"
  using handleCancel_never_raises[of "sample_env answers_pending"
      "initial_state\<lparr>currentTaskId := ''t1''\<rparr>" "()" "JsError (Some ''unknown task'') ''Request failed''"]
    handleCancel_never_raises[of "sample_env answers_pending" initial_state]
  by (simp add: sample_env_def initial_state_def js_or_def)

subsection \<open>C8: the two versions of the component agree\<close>

lemma upsertTask_part0_eq: "upsertTask_part0 p s = upsertTask p s"
  by (simp add: upsertTask_part0_def upsertTask_def Let_def split: option.splits)

lemma poll_loop_part0_eq: "poll_loop_part0 env tid i s = poll_loop env tid i s"
proof (induction "maxPollTimes - i" arbitrary: i s)
  case 0
  then have "\<not> i < maxPollTimes" by simp
  then show ?case
    by (subst poll_loop_part0.simps) (simp add: poll_loop_exhausted maxPollTimes_def)
next
  case (Suc k)
  then have imax: "i < maxPollTimes" and i600: "i < 600" and k: "k = maxPollTimes - Suc i"
    by (auto simp: maxPollTimes_def)
  note IH = Suc.hyps(1)[OF k]
  show ?case
  proof (cases "pollRes env i")
    case (Throws err)
    with imax i600 show ?thesis
      by (subst poll_loop_part0.simps) (simp add: poll_loop_rejected axios_get_def)
  next
    case (Returns d)
    consider "poll_status env d = ''SUCCESS''" | "poll_status env d = ''FAILED''"
      | "poll_status env d = ''CANCELED''"
      | "poll_status env d \<noteq> ''SUCCESS''" "poll_status env d \<noteq> ''FAILED''"
        "poll_status env d \<noteq> ''CANCELED''"
      by blast
    then show ?thesis
    proof cases
      case 1
      with imax i600 Returns show ?thesis
        by (subst poll_loop_part0.simps)
          (simp add: poll_loop_success axios_get_def Let_def upsertTask_part0_eq record_poll_def
            flip: poll_status_def poll_progress_def poll_stage_def)
    next
      case 2
      with imax i600 Returns show ?thesis
        by (subst poll_loop_part0.simps)
          (simp add: poll_loop_failed axios_get_def Let_def upsertTask_part0_eq record_poll_def
            flip: poll_status_def poll_progress_def poll_stage_def)
    next
      case 3
      with imax i600 Returns show ?thesis
        by (subst poll_loop_part0.simps)
          (simp add: poll_loop_canceled axios_get_def Let_def upsertTask_part0_eq record_poll_def
            flip: poll_status_def poll_progress_def poll_stage_def)
    next
      case 4
      with imax i600 Returns show ?thesis
        by (subst poll_loop_part0.simps)
          (simp add: poll_loop_continue axios_get_def Let_def upsertTask_part0_eq record_poll_def IH
            flip: poll_status_def poll_progress_def poll_stage_def)
    qed
  qed
qed

lemma pollGenerateTask_part0_eq: "pollGenerateTask_part0 env tid s = pollGenerateTask env tid s"
  by (simp add: pollGenerateTask_part0_def pollGenerateTask_def poll_loop_part0_eq)

lemma generate_try_part0_eq: "generate_try_part0 env pl start s = generate_try env pl start s"
  unfolding generate_try_part0_def generate_try_def upsertTask_part0_eq pollGenerateTask_part0_eq
  by (rule refl)

text \<open>
  \<^bold>\<open>C8.\<close> For every input and every behaviour of the backend, \<^verbatim>\<open>upsertTask\<close>, \<^verbatim>\<open>pollGenerateTask\<close>,
  \<^verbatim>\<open>handleCancel\<close> and \<^verbatim>\<open>handleGenerate\<close> of \<^verbatim>\<open>src/unnamed/part_000\<close> return the same result, leave the
  same state and perform the same effects as those of \<^verbatim>\<open>App.vue\<close>.
\<close>

theorem versions_agree:
  "upsertTask_part0 = upsertTask \<and> pollGenerateTask_part0 = pollGenerateTask \<and>
   handleCancel_part0 = handleCancel \<and> handleGenerate_part0 = handleGenerate"
  by (intro conjI ext)
    (simp_all add: upsertTask_part0_eq pollGenerateTask_part0_eq handleCancel_part0_def
      handleCancel_def handleGenerate_part0_def handleGenerate_def generate_try_part0_eq)

subsection \<open>C9: an unknown status is polled again\<close>




subsection \<open>C10: upsertTask keeps the ids of the task list unique\<close>

text \<open>
  \<^bold>\<open>C10.\<close> If the task list holds at most one entry per \<^verbatim>\<open>taskId\<close> before \<^verbatim>\<open>upsertTask(patch)\<close>, it
  does so afterwards, and nothing but the list changes. When an entry with the id of the
  patch exists, that entry is patched in place and every other entry is left as it was;
  a new entry is put in front only when no entry has that id.
\<close>

theorem upsertTask_keeps_ids_unique:
  assumes "distinct (map taskId (taskList s))"
  shows "distinct (map taskId (taskList (upsertTask p s))) \<and>
         upsertTask p s = s\<lparr>taskList := taskList (upsertTask p s)\<rparr> \<and>
         taskList (upsertTask p s) =
           (if patch_taskId p \<in> taskId ` set (taskList s)
            then map (\<lambda>item. if taskId item = patch_taskId p then spread item p else item)
                   (taskList s)
            else \<lparr>taskId = patch_taskId p,
                  progress = js_nullish (patch_progress p) 0,
                  stage = js_nullish (patch_stage p) stage_creating,
                  status = js_nullish (patch_status p) ''PENDING''\<rparr> # taskList s)"
proof (cases "findIndex (\<lambda>item. taskId item = patch_taskId p) (taskList s)")
  case None
  then have "patch_taskId p \<notin> taskId ` set (taskList s)"
    by (auto simp: findIndex_None_iff list_all_iff)
  with None assms show ?thesis by (simp add: upsertTask_def)
next
  case (Some i)
  from findIndex_Some[OF Some]
  have i: "i < length (taskList s)" "taskId (taskList s ! i) = patch_taskId p"
    by auto
  then have mem: "patch_taskId p \<in> taskId ` set (taskList s)"
    by (metis image_eqI nth_mem)
  have upd: "(taskList s)[i := spread (taskList s ! i) p] =
      map (\<lambda>item. if taskId item = patch_taskId p then spread item p else item) (taskList s)"
    by (rule update_first_is_map[OF assms Some])
  have "map taskId ((taskList s)[i := spread (taskList s ! i) p]) = map taskId (taskList s)"
    using i by (simp add: map_update taskId_spread list_update_same_conv)
  with assms have "distinct (map taskId ((taskList s)[i := spread (taskList s ! i) p]))"
    by simp
  with Some mem upd show ?thesis by (simp add: upsertTask_def)
qed

theorem upsertTask_keeps_ids_unique_witness:
  "distinct (map taskId (taskList two_tasks)) \<and>
   taskList (upsertTask \<lparr>patch_taskId = ''t1'', patch_progress = Some 55, patch_stage = None,
               patch_status = Some ''RUNNING''\<rparr> two_tasks) =
     [\<lparr>taskId = ''t2'', progress = 100, stage = stage_done, status = ''SUCCESS''\<rparr>,
      \<lparr>taskId = ''t1'', progress = 55, stage = stage_created, status = ''RUNNING''\<rparr>] \<and>
   distinct (map taskId (taskList (upsertTask \<lparr>patch_taskId = ''t1'', patch_progress = Some 55,
               patch_stage = None, patch_status = Some ''RUNNING''\<rparr> two_tasks)))"
proof -
  have d: "distinct (map taskId (taskList two_tasks))"
    by (simp add: two_tasks_def initial_state_def)
  from upsertTask_keeps_ids_unique[OF d, of "\<lparr>patch_taskId = ''t1'', patch_progress = Some 55,
      patch_stage = None, patch_status = Some ''RUNNING''\<rparr>"]
  show ?thesis
    using d by (simp add: two_tasks_def initial_state_def spread_def)
qed

end
